theory Spec2Isabelle
  imports Main
begin

section \<open>The control server of cmd/hzn/control.go\<close>

text \<open>
  The command \<^verbatim>\<open>Run\<close> of \<^verbatim>\<open>controlServer\<close> is one long sequential start-up
  followed by a blocking accept loop. Everything it touches outside the file (the
  process environment, the file system, the secrets backend, the database, the
  certificate manager, the clock and the random source) is gathered in a record
  \<open>world\<close> further down; the code of the file itself is translated literally.

  Go strings and byte slices are byte sequences, so both are \<open>char list\<close>.
  A Go \<^verbatim>\<open>error\<close> value is represented by its message.
\<close>

type_synonym bytes = string
type_synonym err = string

subsection \<open>Library functions used by the file\<close>

text \<open>
  \<^verbatim>\<open>os.Getenv\<close> yields the empty string for a variable that is not set.
\<close>

definition Getenv :: "(string \<rightharpoonup> string) \<Rightarrow> string \<Rightarrow> string" where
  "Getenv env k = (case env k of None \<Rightarrow> [] | Some v \<Rightarrow> v)"

text \<open>
  \<^verbatim>\<open>strings.HasPrefix(s, prefix)\<close> is
  \<^verbatim>\<open>len(s) >= len(prefix) && s[0:len(prefix)] == prefix\<close>.
\<close>

definition HasPrefix :: "string \<Rightarrow> string \<Rightarrow> bool" where
  "HasPrefix s p = (length p \<le> length s \<and> take (length p) s = p)"

text \<open>
  \<^verbatim>\<open>http.Header\<close> maps a canonical header name to the list of its values;
  \<^verbatim>\<open>Get\<close> returns the first value, or the empty string when there is none. The
  only key the file asks for, \<^verbatim>\<open>Content-Type\<close>, is already in canonical form.
\<close>

type_synonym header = "string \<rightharpoonup> string list"

definition Header_Get :: "header \<Rightarrow> string \<Rightarrow> string" where
  "Header_Get h k = (case h k of None \<Rightarrow> [] | Some [] \<Rightarrow> [] | Some (v # _) \<Rightarrow> v)"

subsection \<open>The request handler of the listener (lines 294-301)\<close>

record request =
  ProtoMajor :: int
  Header :: header

datatype handler = GrpcServer | ControlServer

text \<open>
  \<^verbatim>\<open>gs.ServeHTTP\<close> is the gRPC transport, \<^verbatim>\<open>s.ServeHTTP\<close> the plain HTTP handler
  of the control server.
\<close>

definition HandlerFunc :: "request \<Rightarrow> handler" where
  "HandlerFunc r =
     (if ProtoMajor r = 2 \<and> HasPrefix (Header_Get (Header r) ''Content-Type'') ''application/grpc''
      then GrpcServer else ControlServer)"

subsection \<open>Feature toggles (lines 126 and 142)\<close>

definition useAWS :: "(string \<rightharpoonup> string) \<Rightarrow> bool" where
  "useAWS env = (Getenv env ''USE_AWS'' \<noteq> ''0'')"

definition useTLSManager :: "(string \<rightharpoonup> string) \<Rightarrow> bool" where
  "useTLSManager env = (Getenv env ''USE_TLS_MANAGER'' \<noteq> ''0'')"


subsection \<open>Outcomes of start-up\<close>

text \<open>
  \<^verbatim>\<open>log.Fatal\<close> prints its message and exits the process; a nil pointer dereference
  panics. Both end \<^verbatim>\<open>Run\<close> at the statement where they happen; the model keeps the
  calls made up to that point in a trace.
\<close>

datatype abort = Fatal string | Panic string

datatype level = Trace | Debug | Info | Warn | Error

record logger =
  Name :: string
  Level :: level

record vault_client =
  Token :: string

record secret_auth =
  ClientToken :: string
  Accessor :: string

record secret =
  Auth :: "secret_auth option"

datatype db = DB string string

datatype session = Session

datatype lock_manager = ConsulLockManager

record manager_config =
  L :: logger
  Domain :: string
  VaultClient' :: vault_client
  Staging :: bool

datatype manager = Manager manager_config

record server_config =
  Logger :: logger
  DB_of :: db
  RegisterToken :: string
  OpsToken :: string
  VaultClient :: vault_client
  VaultPath :: string
  KeyId :: string
  AwsSession :: "session option"
  Bucket :: string
  ASNDB :: string
  HubAccessKey :: string
  HubSecretKey :: string
  HubImageTag :: string
  LockManager :: lock_manager

datatype private_key = RSAPrivateKey nat nat | ManagedKey bytes

record tls_certificate =
  Certificate :: "bytes list"
  PrivateKey :: private_key

record tls_config =
  Certificates :: "tls_certificate list"

record pkix_name =
  Country :: "string list"
  Organization :: "string list"
  CommonName :: string

record x509_certificate =
  Subject :: pkix_name
  SerialNumber :: nat
  NotBefore :: int
  NotAfter :: int
  KeyUsage :: nat

record http_server =
  TLSConfig :: tls_config
  Addr :: string
  IdleTimeout :: int
  Handler :: "request \<Rightarrow> handler"
  ErrorLog :: logger

text \<open>
  The TLS material the control server holds for the hubs. \<^verbatim>\<open>control.Server\<close> is
  not part of this file; only its hub TLS material is represented.
\<close>

record hub_tls =
  material_cert :: bytes
  material_key :: bytes
  material_domain :: string

record server =
  cfg :: server_config
  hubTLS :: "hub_tls option"

datatype goroutine =
    RenewLoop
  | StartHealthz
  | PeriodicRefresh int string
  | WorkerRun string

datatype event =
    Log level string
  | Call_NewClient
  | Call_Open string
  | Call_ReadAll string
  | Call_Close string
  | Call_Write string "string \<rightharpoonup> string"
  | Call_SetToken string
  | Call_gorm_Open string string
  | Call_NewSession
  | Call_NewManager manager_config
  | Call_SetupRoute53 string
  | Call_HubMaterial
  | Call_NewConsulLockManager
  | Call_NewServer server_config
  | Call_config_DB
  | Call_RegisterHandler string
  | Call_RegisterPeriodicJob string string string int
  | Call_SetHubTLS bytes bytes string
  | Call_Certificate
  | Call_grpc_NewServer
  | Call_RegisterService string
  | Call_GenerateKey nat
  | Call_rand_Int nat
  | Call_Now
  | Call_CreateCertificate x509_certificate
  | New_http_Server string
  | Call_RegisterRenewHandler "manager option"
  | Call_PrintHandlers
  | Call_NewWorker "string list"
  | Call_ListenAndServeTLS
  | Call_NewTicker int
  | Call_RenewSelf int
  | Call_RefreshFromVault
  | Printf string
  | Go goroutine

type_synonym 'a proc = "event list \<times> (abort + 'a)"

definition ret :: "'a \<Rightarrow> 'a proc" where
  "ret a = ([], Inr a)"

definition fatal :: "string \<Rightarrow> 'a proc" where
  "fatal m = ([], Inl (Fatal m))"

definition panic :: "string \<Rightarrow> 'a proc" where
  "panic m = ([], Inl (Panic m))"

definition emit :: "event \<Rightarrow> 'a proc \<Rightarrow> 'a proc" where
  "emit e k = (case k of (tr, r) \<Rightarrow> (e # tr, r))"

definition prepend :: "event list \<Rightarrow> 'a proc \<Rightarrow> 'a proc" where
  "prepend tr k = (case k of (tr', r) \<Rightarrow> (tr @ tr', r))"

definition andThen :: "'a proc \<Rightarrow> ('a \<Rightarrow> 'b proc) \<Rightarrow> 'b proc" where
  "andThen m f =
     (case m of
        (tr, Inl a) \<Rightarrow> (tr, Inl a)
      | (tr, Inr x) \<Rightarrow> prepend tr (f x))"

text \<open>\<^verbatim>\<open>if err != nil { log.Fatal(err) }\<close> after a call that returns a value.\<close>

definition orFatal :: "err + 'a \<Rightarrow> 'a proc" where
  "orFatal r = (case r of Inl e \<Rightarrow> fatal e | Inr a \<Rightarrow> ret a)"

text \<open>The same after a call that returns only an error.\<close>

definition okOrFatal :: "err option \<Rightarrow> unit proc" where
  "okOrFatal r = (case r of Some e \<Rightarrow> fatal e | None \<Rightarrow> ret ())"

subsection \<open>The world outside the file\<close>

text \<open>
  A path of the file system, as the two calls the file makes can observe it:
  \<^verbatim>\<open>os.Open\<close> fails on a missing file and on one the process may not open;
  \<^verbatim>\<open>ioutil.ReadAll\<close> on an opened file either fails (an I/O error, or the path is
  a directory) or returns the contents.
\<close>

datatype file_node = NoSuchFile | PermissionDenied | ReadFails err | RegularFile bytes

definition os_Open :: "(string \<Rightarrow> file_node) \<Rightarrow> string \<Rightarrow> err + string" where
  "os_Open fs path =
     (case fs path of
        NoSuchFile \<Rightarrow> Inl (''open '' @ path @ '': no such file or directory'')
      | PermissionDenied \<Rightarrow> Inl (''open '' @ path @ '': permission denied'')
      | ReadFails e \<Rightarrow> Inr path
      | RegularFile d \<Rightarrow> Inr path)"

definition ioutil_ReadAll :: "(string \<Rightarrow> file_node) \<Rightarrow> string \<Rightarrow> err + bytes" where
  "ioutil_ReadAll fs f =
     (case fs f of
        RegularFile d \<Rightarrow> Inr d
      | ReadFails e \<Rightarrow> Inl e
      | NoSuchFile \<Rightarrow> Inl ''invalid argument''
      | PermissionDenied \<Rightarrow> Inl ''invalid argument'')"

text \<open>A file exists when opening it does not fail for want of the file.\<close>

definition file_exists :: "(string \<Rightarrow> file_node) \<Rightarrow> string \<Rightarrow> bool" where
  "file_exists fs path = (fs path \<noteq> NoSuchFile)"

text \<open>Its contents can be read when both calls succeed.\<close>

definition file_readable :: "(string \<Rightarrow> file_node) \<Rightarrow> string \<Rightarrow> bool" where
  "file_readable fs path = (case fs path of RegularFile d \<Rightarrow> True | _ \<Rightarrow> False)"

datatype serve_outcome = ServesForever | ReturnsNil | ReturnsError err

text \<open>
  The answers of everything \<^verbatim>\<open>Run\<close> calls. A constructor of another package
  (\<^verbatim>\<open>gorm.Open\<close>, \<^verbatim>\<open>tlsmanage.NewManager\<close>, ...) either returns an error or the
  object built from its arguments, never a nil object with a nil error.
  \<^verbatim>\<open>api_NewClient\<close> gives the token the new client starts with (the ambient
  token). \<^verbatim>\<open>TrimSpace\<close> is \<^verbatim>\<open>bytes.TrimSpace\<close>.
  \<^verbatim>\<open>RegisterRenewHandler\<close> says whether that method returns normally on the
  given receiver, which the file passes even when it is nil. \<^verbatim>\<open>time_Now\<close> gives
  the successive readings of the clock, in nanoseconds.
\<close>

record world =
  environ :: "string \<rightharpoonup> string"
  files :: "string \<Rightarrow> file_node"
  api_NewClient :: "err + string"
  TrimSpace :: "bytes \<Rightarrow> bytes"
  Logical_Write :: "string \<Rightarrow> (string \<rightharpoonup> string) \<Rightarrow> err + secret option"
  gorm_Open :: "string \<Rightarrow> string \<Rightarrow> err option"
  session_NewSession :: "err option"
  tlsmanage_NewManager :: "manager_config \<Rightarrow> err option"
  SetupRoute53 :: "string \<Rightarrow> err option"
  HubMaterial :: "err + bytes \<times> bytes"
  tlsmgr_Certificate :: "err + tls_certificate"
  RegisterRenewHandler :: "manager option \<Rightarrow> bool"
  control_NewConsulLockManager :: "err option"
  control_NewServer :: "server_config \<Rightarrow> err option"
  rsa_GenerateKey :: "nat \<Rightarrow> err + nat"
  rand_Int :: "nat \<Rightarrow> err + nat"
  time_Now :: "nat \<Rightarrow> int"
  x509_CreateCertificate :: "x509_certificate \<Rightarrow> private_key \<Rightarrow> err + bytes"
  ListenAndServeTLS :: serve_outcome

subsection \<open>Durations\<close>

text \<open>\<^verbatim>\<open>time.Duration\<close> counts nanoseconds.\<close>

definition Nanosecond :: int where "Nanosecond = 1"
definition Microsecond :: int where "Microsecond = 1000 * Nanosecond"
definition Millisecond :: int where "Millisecond = 1000 * Microsecond"
definition Second :: int where "Second = 1000 * Millisecond"
definition Minute :: int where "Minute = 60 * Second"
definition Hour :: int where "Hour = 60 * Minute"

subsection \<open>snakeOilCert (lines 335-375)\<close>

definition KeyUsageDigitalSignature :: nat where
  "KeyUsageDigitalSignature = 1"

text \<open>
  The local variable \<^verbatim>\<open>template\<close>. The function reads the clock twice: once for
  \<^verbatim>\<open>notBefore\<close>, from which \<^verbatim>\<open>notAfter\<close> is computed, and once more for the
  \<^verbatim>\<open>NotBefore\<close> field of the template.
\<close>

definition template :: "world \<Rightarrow> string \<Rightarrow> nat \<Rightarrow> x509_certificate" where
  "template w commonName serialNumber =
     (let subj = \<lparr>Country = [''CH''], Organization = [''SnakeOil''], CommonName = commonName\<rparr>;
          notBefore = time_Now w 0;
          notAfter = notBefore + 5 * 365 * 24 * Hour
      in \<lparr>Subject = subj, SerialNumber = serialNumber, NotBefore = time_Now w 1,
          NotAfter = notAfter, KeyUsage = KeyUsageDigitalSignature\<rparr>)"

definition snakeOilCert :: "world \<Rightarrow> string \<Rightarrow> (bytes \<times> private_key) proc" where
  "snakeOilCert w commonName =
     emit (Call_GenerateKey 4096)
     (case rsa_GenerateKey w 4096 of
        Inl e \<Rightarrow> fatal (''unable to create snakeoil ed25519 key pair: '' @ e)
      | Inr k \<Rightarrow>
          (let privateSnakeOil = RSAPrivateKey 4096 k;
               serialNumberLimit = 1 * 2 ^ 128
           in emit (Call_rand_Int serialNumberLimit)
              (case rand_Int w serialNumberLimit of
                 Inl e \<Rightarrow> fatal (''failed to generate serial number: '' @ e)
               | Inr serialNumber \<Rightarrow>
                   emit Call_Now (emit Call_Now
                   (emit (Call_CreateCertificate (template w commonName serialNumber))
                   (case x509_CreateCertificate w (template w commonName serialNumber) privateSnakeOil of
                      Inl e \<Rightarrow> fatal (''unable to create x509 certificate: '' @ e)
                    | Inr cert \<Rightarrow> ret (cert, privateSnakeOil)))))))"

subsection \<open>Run: the logger (lines 48-59)\<close>

definition newLogger :: "world \<Rightarrow> logger" where
  "newLogger w =
     \<lparr>Name = ''control'',
      Level = (if Getenv (environ w) ''DEBUG'' \<noteq> [] then Trace else Info)\<rparr>"

subsection \<open>Run: the login to the secrets backend (lines 64-109)\<close>

definition tokenPath :: string where
  "tokenPath = ''/var/run/secrets/kubernetes.io/serviceaccount/token''"

definition login :: "world \<Rightarrow> vault_client proc" where
  "login w =
     emit Call_NewClient
     (andThen (orFatal (api_NewClient w)) (\<lambda>token.
        if token = [] then
          emit (Call_Open tokenPath)
          (case os_Open (files w) tokenPath of
             Inl e \<Rightarrow> ret \<lparr>Token = token\<rparr>
           | Inr f \<Rightarrow>
               emit (Log Info ''attempting to login to vault via kubernetes auth'')
               (emit (Call_ReadAll f)
               (andThen (orFatal (ioutil_ReadAll (files w) f)) (\<lambda>data.
                  emit (Call_Close f)
                  (let req = [''role'' \<mapsto> ''horizon'', ''jwt'' \<mapsto> TrimSpace w data]
                   in emit (Call_Write ''auth/kubernetes/login'' req)
                      (andThen (orFatal (Logical_Write w ''auth/kubernetes/login'' req)) (\<lambda>sec.
                         case sec of
                           None \<Rightarrow> fatal ''unable to login to get token''
                         | Some sec \<Rightarrow>
                             (case Auth sec of
                                None \<Rightarrow> panic ''runtime error: invalid memory address or nil pointer dereference''
                              | Some auth \<Rightarrow>
                                  emit (Call_SetToken (ClientToken auth))
                                  (emit (Log Info ''retrieved token from vault'')
                                  (emit (Go RenewLoop)
                                  (ret \<lparr>Token = ClientToken auth\<rparr>)))))))))))
        else ret \<lparr>Token = token\<rparr>))"

subsection \<open>The renewal goroutine (lines 98-107)\<close>

text \<open>
  What the goroutine finds each time the ticker fires: whether the context of
  \<^verbatim>\<open>Run\<close> has been cancelled by then, and what \<^verbatim>\<open>RenewSelf\<close> answers.
\<close>

record renew_tick =
  ctx_Done :: bool
  RenewSelf :: "int \<Rightarrow> err option"

datatype goroutine_state = Blocked_on_ticker | Returned

text \<open>The body of the \<^verbatim>\<open>for\<close> loop after the receive from \<^verbatim>\<open>tic.C\<close>.\<close>

definition renewBody :: "renew_tick \<Rightarrow> event list" where
  "renewBody t =
     Call_RenewSelf 86400 #
     (case RenewSelf t 86400 of
        Some e \<Rightarrow> [Printf (''unable to renew Vault token: '' @ e)]
      | None \<Rightarrow> [])"

text \<open>
  The loop has no \<^verbatim>\<open>break\<close> and no \<^verbatim>\<open>return\<close>: after the firings it has been
  given it waits for the next one.
\<close>

fun renewLoop :: "renew_tick list \<Rightarrow> event list \<times> goroutine_state" where
  "renewLoop [] = ([], Blocked_on_ticker)"
| "renewLoop (t # ts) = (case renewLoop ts of (tr, st) \<Rightarrow> (renewBody t @ tr, st))"

definition renewGoroutine :: "renew_tick list \<Rightarrow> event list \<times> goroutine_state" where
  "renewGoroutine ts = (case renewLoop ts of (tr, st) \<Rightarrow> (Call_NewTicker Hour # tr, st))"

subsection \<open>Run: database, bucket and cloud session (lines 111-134)\<close>

definition openDatabase :: "world \<Rightarrow> (string \<times> db) proc" where
  "openDatabase w =
     (let url = Getenv (environ w) ''DATABASE_URL''
      in if url = [] then fatal ''no DATABASE_URL provided''
         else emit (Call_gorm_Open ''postgres'' url)
              (andThen (okOrFatal (gorm_Open w ''postgres'' url)) (\<lambda>_.
                 ret (url, DB ''postgres'' url))))"

definition awsSession :: "world \<Rightarrow> (string \<times> session option) proc" where
  "awsSession w =
     (let bucket = Getenv (environ w) ''S3_BUCKET''
      in if bucket = [] then fatal ''S3_BUCKET not set''
         else if useAWS (environ w) then
           emit Call_NewSession
           (case session_NewSession w of
              Some e \<Rightarrow> fatal (''unable to initialize AWS: '' @ e)
            | None \<Rightarrow> ret (bucket, Some Session))
         else ret (bucket, None))"

subsection \<open>Run: the certificate manager (lines 137-168)\<close>

definition tlsManager :: "world \<Rightarrow> logger \<Rightarrow> vault_client \<Rightarrow> (string \<times> manager option) proc" where
  "tlsManager w lg vaultClient =
     (let domain = Getenv (environ w) ''HUB_DOMAIN''
      in if domain = [] then fatal ''missing HUB_DOMAIN''
         else
           andThen
             (if useTLSManager (environ w) then
                (let staging = (Getenv (environ w) ''LETSENCRYPT_STAGING'' \<noteq> []);
                     mc = \<lparr>L = lg, Domain = domain, VaultClient' = vaultClient, Staging = staging\<rparr>
                 in emit (Call_NewManager mc)
                    (andThen (okOrFatal (tlsmanage_NewManager w mc)) (\<lambda>_.
                       ret (Some (Manager mc)))))
              else ret None)
             (\<lambda>tlsmgr.
                andThen
                  (if useAWS (environ w) \<and> useTLSManager (environ w) then
                     (let zoneId = Getenv (environ w) ''ZONE_ID''
                      in if zoneId = [] then fatal ''missing ZONE_ID''
                         else emit (Call_SetupRoute53 zoneId) (okOrFatal (SetupRoute53 w zoneId)))
                   else ret ())
                  (\<lambda>_. ret (domain, tlsmgr))))"

subsection \<open>Run: tokens and port (lines 170-189)\<close>

definition requiredTokens :: "world \<Rightarrow> (string \<times> string) proc" where
  "requiredTokens w =
     (let regTok = Getenv (environ w) ''REGISTER_TOKEN''
      in if regTok = [] then fatal ''missing REGISTER_TOKEN''
         else
           (let opsTok = Getenv (environ w) ''OPS_TOKEN''
            in if opsTok = [] then fatal ''missing OPS_TOKEN''
               else ret (regTok, opsTok)))"

definition listenPort :: "world \<Rightarrow> string" where
  "listenPort w =
     (let port = Getenv (environ w) ''PORT''
      in if port = [] then ''24402'' else port)"

subsection \<open>Run: initial hub material (lines 195-203)\<close>

definition initialMaterial :: "world \<Rightarrow> manager option \<Rightarrow> (bytes \<times> bytes) proc" where
  "initialMaterial w tlsmgr =
     (case tlsmgr of
        None \<Rightarrow> ret ([], [])
      | Some m \<Rightarrow> emit Call_HubMaterial (orFatal (HubMaterial w)))"

subsection \<open>Hub TLS material of the server\<close>

text \<open>
  Modelled from the spec: \<^verbatim>\<open>SetHubTLS\<close> of \<^verbatim>\<open>control.Server\<close> is not in this
  file. The specification (4.4, TLS Material Store) describes its one mutator as
  holding the current certificate bytes, key bytes and domain, replaced as a whole
  and never merged, with no history.
\<close>

definition SetHubTLS :: "bytes \<Rightarrow> bytes \<Rightarrow> string \<Rightarrow> server \<Rightarrow> server" where
  "SetHubTLS cert key domain s =
     s\<lparr>hubTLS := Some \<lparr>material_cert = cert, material_key = key, material_domain = domain\<rparr>\<rparr>"

subsection \<open>The refresh closure given to periodic.Run (lines 253-260)\<close>

text \<open>
  One run of the closure, given what \<^verbatim>\<open>RefreshFromVault\<close> answers, the
  \<^verbatim>\<open>hubDomain\<close> it captured, and the server it writes to.
\<close>

definition refresh :: "(err + bytes \<times> bytes) \<Rightarrow> string \<Rightarrow> server \<Rightarrow> event list \<times> server" where
  "refresh r hubDomain s =
     (case r of
        Inl e \<Rightarrow>
          ([Call_RefreshFromVault, Log Error ''error refreshing hub certs from vault''], s)
      | Inr (cert, key) \<Rightarrow>
          ([Call_RefreshFromVault, Call_SetHubTLS cert key hubDomain],
           SetHubTLS cert key hubDomain s))"

subsection \<open>Run: managed certificate (lines 245-267)\<close>

definition managedCertificate ::
  "world \<Rightarrow> manager option \<Rightarrow> bytes \<Rightarrow> bytes \<Rightarrow> string \<Rightarrow> server
     \<Rightarrow> (tls_certificate option \<times> server) proc" where
  "managedCertificate w tlsmgr cert key hubDomain s =
     (case tlsmgr of
        None \<Rightarrow> ret (None, s)
      | Some m \<Rightarrow>
          emit (Call_SetHubTLS cert key hubDomain)
          (emit (Go (PeriodicRefresh Hour hubDomain))
          (emit Call_Certificate
          (andThen (orFatal (tlsmgr_Certificate w)) (\<lambda>c.
             ret (Some c, SetHubTLS cert key hubDomain s))))))"

subsection \<open>Run: the TLS configuration of the listener (lines 275-288)\<close>

definition listenerConfig ::
  "world \<Rightarrow> manager option \<Rightarrow> tls_certificate option \<Rightarrow> tls_config proc" where
  "listenerConfig w tlsmgr tlsCert =
     (case (tlsmgr, tlsCert) of
        (Some m, Some c) \<Rightarrow> ret \<lparr>Certificates = [c]\<rparr>
      | _ \<Rightarrow>
          andThen (snakeOilCert w ''127.0.0.1:24402'') (\<lambda>(cert, privateKey).
            ret \<lparr>Certificates = [\<lparr>Certificate = [cert], PrivateKey = privateKey\<rparr>]\<rparr>))"

subsection \<open>Run\<close>

text \<open>
  What follows the login (lines 111-326), given the logger and the client of the
  secrets backend: the result is the HTTP server about to listen and the control
  server behind it.
\<close>

definition afterLogin :: "world \<Rightarrow> logger \<Rightarrow> vault_client \<Rightarrow> (http_server \<times> server) proc" where
  "afterLogin w lg vaultClient =
     andThen (openDatabase w) (\<lambda>(url, db).
     andThen (awsSession w) (\<lambda>(bucket, sess).
     andThen (tlsManager w lg vaultClient) (\<lambda>(domain, tlsmgr).
     andThen (requiredTokens w) (\<lambda>(regTok, opsTok).
     let asnDB = Getenv (environ w) ''ASN_DB_PATH'';
         hubAccess = Getenv (environ w) ''HUB_ACCESS_KEY'';
         hubSecret = Getenv (environ w) ''HUB_SECRET_KEY'';
         hubTag = Getenv (environ w) ''HUB_IMAGE_TAG'';
         port = listenPort w
     in emit (Go StartHealthz)
        (andThen (initialMaterial w tlsmgr) (\<lambda>(cert, key).
         emit Call_NewConsulLockManager
         (andThen (okOrFatal (control_NewConsulLockManager w)) (\<lambda>_.
          let sc = \<lparr>Logger = lg, DB_of = db, RegisterToken = regTok, OpsToken = opsTok,
                    VaultClient = vaultClient, VaultPath = ''hzn-k1'', KeyId = ''k1'',
                    AwsSession = sess, Bucket = bucket, ASNDB = asnDB,
                    HubAccessKey = hubAccess, HubSecretKey = hubSecret,
                    HubImageTag = hubTag, LockManager = ConsulLockManager\<rparr>
          in emit (Call_NewServer sc)
             (andThen (okOrFatal (control_NewServer w sc)) (\<lambda>_.
              emit Call_config_DB
              (emit (Call_RegisterHandler ''cleanup-activity-log'')
              (emit (Call_RegisterPeriodicJob ''cleanup-activity-log'' ''default''
                       ''cleanup-activity-log'' Hour)
              (let hubDomain = (if HasPrefix domain ''*.'' then drop 2 domain else domain)
               in andThen
                    (managedCertificate w tlsmgr cert key hubDomain \<lparr>cfg = sc, hubTLS = None\<rparr>)
                    (\<lambda>(tlsCert, s).
                     emit Call_grpc_NewServer
                     (emit (Call_RegisterService ''ControlServices'')
                     (emit (Call_RegisterService ''ControlManagement'')
                     (emit (Call_RegisterService ''FlowTopReporter'')
                     (emit (Call_RegisterService ''reflection'')
                     (andThen (listenerConfig w tlsmgr tlsCert) (\<lambda>lcfg.
                      let hs = \<lparr>TLSConfig = lcfg, Addr = '':'' @ port,
                                IdleTimeout = 2 * Minute, Handler = HandlerFunc,
                                ErrorLog = lg\<rparr>
                      in emit (New_http_Server (Addr hs))
                         (emit (Call_RegisterRenewHandler tlsmgr)
                         (if \<not> RegisterRenewHandler w tlsmgr
                          then panic ''runtime error: invalid memory address or nil pointer dereference''
                          else
                            emit (Log Info ''starting background worker'')
                            (emit Call_PrintHandlers
                            (emit (Call_NewWorker [''default''])
                            (emit (Go (WorkerRun url))
                            (ret (hs, s)))))))))))))))))))))))))))"

text \<open>Everything up to the call of \<^verbatim>\<open>ListenAndServeTLS\<close> (lines 48-326).\<close>

definition startup :: "world \<Rightarrow> (http_server \<times> server) proc" where
  "startup w =
     (let lg = newLogger w
      in emit (Log Info ''log level configured'')
         (emit (Log Trace ''starting server'')
         (andThen (login w) (\<lambda>vaultClient. afterLogin w lg vaultClient))))"

text \<open>
  \<^verbatim>\<open>Run\<close> returns 0 when the accept loop returns without an error, exits through
  \<^verbatim>\<open>log.Fatal\<close> when it returns one, and does not return (\<open>None\<close>) while the
  accept loop is serving.
\<close>

definition Run :: "world \<Rightarrow> int option proc" where
  "Run w =
     andThen (startup w) (\<lambda>(hs, s).
       emit Call_ListenAndServeTLS
       (case ListenAndServeTLS w of
          ReturnsError e \<Rightarrow> fatal e
        | ReturnsNil \<Rightarrow> ret (Some 0)
        | ServesForever \<Rightarrow> ret None))"

subsection \<open>Properties of traces and results\<close>

text \<open>
  \<open>always P k\<close>: every call in the trace of \<open>k\<close> satisfies \<open>P\<close>, however \<open>k\<close> ends.
  \<open>yields Q k\<close>: if \<open>k\<close> ends without \<^verbatim>\<open>log.Fatal\<close> or panic, its value satisfies \<open>Q\<close>.
\<close>

definition always :: "(event \<Rightarrow> bool) \<Rightarrow> 'a proc \<Rightarrow> bool" where
  "always P k = list_all P (fst k)"

definition yields :: "('a \<Rightarrow> bool) \<Rightarrow> 'a proc \<Rightarrow> bool" where
  "yields Q k = (case snd k of Inl a \<Rightarrow> True | Inr x \<Rightarrow> Q x)"

text \<open>A certificate template, when one is made, names \<^verbatim>\<open>127.0.0.1:24402\<close>.\<close>

abbreviation cn_fixed :: "event \<Rightarrow> bool" where
  "cn_fixed e \<equiv>
     (case e of
        Call_CreateCertificate t \<Rightarrow> CommonName (Subject t) = ''127.0.0.1:24402''
      | _ \<Rightarrow> True)"

text \<open>The call is none of those the login makes after opening the token file.\<close>

abbreviation no_login :: "event \<Rightarrow> bool" where
  "no_login e \<equiv>
     (case e of
        Call_ReadAll f \<Rightarrow> False
      | Call_Write p r \<Rightarrow> False
      | Call_SetToken t \<Rightarrow> False
      | Go g \<Rightarrow> g \<noteq> RenewLoop
      | _ \<Rightarrow> True)"

subsection \<open>A concrete world\<close>

text \<open>
  A deployment outside Kubernetes with both toggles off, used to run the model:
  no identity file, no ambient token, every collaborator answering without error,
  and a clock that advances by 20 ns between two readings, across the boundary of
  a second.
\<close>

definition isSpace :: "char \<Rightarrow> bool" where
  "isSpace c = (c \<in> set [CHR '' '', CHR 0x09, CHR 0x0A, CHR 0x0B, CHR 0x0C, CHR 0x0D])"

definition trimASCII :: "bytes \<Rightarrow> bytes" where
  "trimASCII b = rev (dropWhile isSpace (rev (dropWhile isSpace b)))"

definition local_env :: "string \<rightharpoonup> string" where
  "local_env =
     [''DATABASE_URL'' \<mapsto> ''postgres://localhost/horizon'',
      ''S3_BUCKET'' \<mapsto> ''hzn'',
      ''USE_AWS'' \<mapsto> ''0'',
      ''HUB_DOMAIN'' \<mapsto> ''*.hub.test'',
      ''USE_TLS_MANAGER'' \<mapsto> ''0'',
      ''REGISTER_TOKEN'' \<mapsto> ''reg'',
      ''OPS_TOKEN'' \<mapsto> ''ops'',
      ''PORT'' \<mapsto> ''8443'']"

definition local_world :: world where
  "local_world =
     \<lparr>environ = local_env,
      files = (\<lambda>_. NoSuchFile),
      api_NewClient = Inr [],
      TrimSpace = trimASCII,
      Logical_Write = (\<lambda>_ _. Inr None),
      gorm_Open = (\<lambda>_ _. None),
      session_NewSession = None,
      tlsmanage_NewManager = (\<lambda>_. None),
      SetupRoute53 = (\<lambda>_. None),
      HubMaterial = Inr (''hub-cert'', ''hub-key''),
      tlsmgr_Certificate = Inr \<lparr>Certificate = [''managed-der''], PrivateKey = ManagedKey ''managed-key''\<rparr>,
      RegisterRenewHandler = (\<lambda>_. True),
      control_NewConsulLockManager = None,
      control_NewServer = (\<lambda>_. None),
      rsa_GenerateKey = (\<lambda>_. Inr 7),
      rand_Int = (\<lambda>_. Inr 12345),
      time_Now = (\<lambda>k. 1999999990 + 20 * int k),
      x509_CreateCertificate = (\<lambda>_ _. Inr ''snakeoil-der''),
      ListenAndServeTLS = ServesForever\<rparr>"

text \<open>
  The same deployment with a token file that exists but that the process may not
  open, and with an ambient token next to a token path whose read would fail.
\<close>

definition locked_token_world :: world where
  "locked_token_world = local_world\<lparr>files := (\<lambda>_. PermissionDenied)\<rparr>"

definition ambient_token_world :: world where
  "ambient_token_world =
     local_world\<lparr>files := (\<lambda>_. ReadFails ''is a directory''),
                  api_NewClient := Inr ''s.ambient''\<rparr>"

section \<open>Evaluating the model\<close>

lemma emit_pair: "emit e (tr, r) = (e # tr, r)"
  by (simp add: emit_def)

lemma prepend_pair: "prepend tr (tr', r) = (tr @ tr', r)"
  by (simp add: prepend_def)

lemma andThen_Inl: "andThen (tr, Inl a) f = (tr, Inl a)"
  by (simp add: andThen_def)

lemma andThen_Inr: "andThen (tr, Inr x) f = prepend tr (f x)"
  by (simp add: andThen_def)

lemma fst_emit: "fst (emit e k) = e # fst k"
  by (cases k) (simp add: emit_def)

lemma snd_emit: "snd (emit e k) = snd k"
  by (cases k) (simp add: emit_def)

lemma fst_prepend: "fst (prepend tr k) = tr @ fst k"
  by (cases k) (simp add: prepend_def)

lemma snd_prepend: "snd (prepend tr k) = snd k"
  by (cases k) (simp add: prepend_def)

lemmas proc_simps = emit_pair prepend_pair andThen_Inl andThen_Inr ret_def fatal_def panic_def
  orFatal_def okOrFatal_def Let_def

lemmas proj_simps = fst_emit snd_emit fst_prepend snd_prepend

lemmas run_defs = Run_def startup_def afterLogin_def login_def
  openDatabase_def awsSession_def tlsManager_def requiredTokens_def listenPort_def
  initialMaterial_def managedCertificate_def listenerConfig_def snakeOilCert_def Getenv_def
  useAWS_def useTLSManager_def os_Open_def ioutil_ReadAll_def tokenPath_def newLogger_def
  HasPrefix_def

section \<open>Invariants of the trace\<close>

lemma always_ret: "always P (ret a)"
  by (simp add: always_def ret_def)
lemma always_fatal: "always P (fatal m)"
  by (simp add: always_def fatal_def)
lemma always_panic: "always P (panic m)"
  by (simp add: always_def panic_def)
lemma always_emit: "P e \<Longrightarrow> always P k \<Longrightarrow> always P (emit e k)"
  by (simp add: always_def fst_emit)
lemma always_andThen: "always P m \<Longrightarrow> (\<And>x. always P (f x)) \<Longrightarrow> always P (andThen m f)"
  by (cases m) (auto simp: always_def andThen_def fst_prepend split: sum.splits)
lemma always_orFatal: "always P (orFatal r)"
  by (cases r) (simp_all add: orFatal_def always_ret always_fatal)
lemma always_okOrFatal: "always P (okOrFatal r)"
  by (cases r) (simp_all add: okOrFatal_def always_ret always_fatal)
lemmas always_intros = always_ret always_fatal always_panic always_emit always_andThen
  always_orFatal always_okOrFatal


lemma always_if: "always P a \<Longrightarrow> always P b \<Longrightarrow> always P (if c then a else b)"
  by simp
lemma always_case_prod: "(\<And>a b. always P (f a b)) \<Longrightarrow> always P (case_prod f x)"
  by (cases x) simp
lemma always_case_sum:
  "(\<And>a. always P (f a)) \<Longrightarrow> (\<And>b. always P (g b)) \<Longrightarrow> always P (case_sum f g x)"
  by (cases x) simp_all
lemma always_case_option:
  "always P a \<Longrightarrow> (\<And>b. always P (g b)) \<Longrightarrow> always P (case_option a g x)"
  by (cases x) simp_all
lemmas always_splits = always_if always_case_prod always_case_sum always_case_option

lemma yields_ret: "Q a \<Longrightarrow> yields Q (ret a)"
  by (simp add: yields_def ret_def)
lemma yields_fatal: "yields Q (fatal m)"
  by (simp add: yields_def fatal_def)
lemma yields_panic: "yields Q (panic m)"
  by (simp add: yields_def panic_def)
lemma yields_emit: "yields Q k \<Longrightarrow> yields Q (emit e k)"
  by (simp add: yields_def snd_emit)
lemma yields_andThen:
  assumes "\<And>x. yields Q (f x)" shows "yields Q (andThen m f)"
proof (cases m)
  case (Pair tr r)
  show ?thesis
  proof (cases r)
    case (Inl a)
    with Pair show ?thesis by (simp add: yields_def andThen_def)
  next
    case (Inr x)
    with Pair assms [of x] show ?thesis by (simp add: yields_def andThen_def snd_prepend)
  qed
qed
lemma yields_if: "yields Q a \<Longrightarrow> yields Q b \<Longrightarrow> yields Q (if c then a else b)"
  by simp
lemma yields_case_prod: "(\<And>a b. yields Q (f a b)) \<Longrightarrow> yields Q (case_prod f x)"
  by (cases x) simp
lemmas yields_intros = yields_ret yields_fatal yields_panic yields_emit yields_andThen
  yields_if yields_case_prod

lemma always_login: "always cn_fixed (login w)"
  unfolding login_def Let_def
  by (intro always_intros always_splits; simp)

lemma always_snakeOilCert:
  "always cn_fixed (snakeOilCert w ''127.0.0.1:24402'')"
  unfolding snakeOilCert_def Let_def
  by (intro always_intros always_splits; simp add: template_def)

lemma always_listenerConfig: "always cn_fixed (listenerConfig w tlsmgr tlsCert)"
  unfolding listenerConfig_def
  by (simp split: option.splits add: always_ret always_andThen always_snakeOilCert always_case_prod)

lemma always_afterLogin: "always cn_fixed (afterLogin w lg vc)"
  unfolding afterLogin_def openDatabase_def awsSession_def tlsManager_def requiredTokens_def
     initialMaterial_def managedCertificate_def Let_def
  by (intro always_intros always_splits always_listenerConfig; simp)

lemma always_Run: "always cn_fixed (Run w)"
  unfolding Run_def startup_def Let_def
  by (intro always_intros always_splits always_login always_afterLogin; simp split: serve_outcome.splits add: always_intros)

lemma yields_afterLogin: "yields (\<lambda>(hs, s). Addr hs = '':'' @ listenPort w) (afterLogin w lg vc)"
  unfolding afterLogin_def Let_def
  by (intro yields_intros; simp)

lemma no_login_snakeOilCert: "always no_login (snakeOilCert w cn)"
  unfolding snakeOilCert_def Let_def
  by (intro always_intros always_splits; simp)

lemma no_login_listenerConfig: "always no_login (listenerConfig w tlsmgr tlsCert)"
  unfolding listenerConfig_def
  by (simp split: option.splits add: always_ret always_andThen no_login_snakeOilCert always_case_prod)

lemma no_login_afterLogin: "always no_login (afterLogin w lg vc)"
  unfolding afterLogin_def openDatabase_def awsSession_def tlsManager_def requiredTokens_def
     initialMaterial_def managedCertificate_def Let_def
  by (intro always_intros always_splits no_login_listenerConfig; simp)

lemma set_fst_andThen: "set (fst m) \<subseteq> set (fst (andThen m f))"
  by (cases m) (auto simp: andThen_def fst_prepend split: sum.splits)

lemma in_andThenI: "e \<in> set (fst m) \<Longrightarrow> e \<in> set (fst (andThen m f))"
  using set_fst_andThen by blast

lemma login_skipped:
  assumes "api_NewClient w = Inr []" and "files w tokenPath = NoSuchFile"
  shows "login w = ([Call_NewClient, Call_Open tokenPath], Inr \<lparr>Token = []\<rparr>)"
  using assms by (simp add: login_def os_Open_def proc_simps)

lemma startup_after_skipped_login:
  assumes "login w = ([Call_NewClient, Call_Open tokenPath], Inr \<lparr>Token = []\<rparr>)"
  shows "startup w =
           prepend [Log Info ''log level configured'', Log Trace ''starting server'',
                    Call_NewClient, Call_Open tokenPath]
             (afterLogin w (newLogger w) \<lparr>Token = []\<rparr>)"
  using assms by (cases "afterLogin w (newLogger w) \<lparr>Token = []\<rparr>") (simp add: startup_def proc_simps)

lemma no_login_Run_skipped:
  assumes "login w = ([Call_NewClient, Call_Open tokenPath], Inr \<lparr>Token = []\<rparr>)"
  shows "always no_login (Run w)"
  unfolding Run_def startup_after_skipped_login [OF assms]
  using no_login_afterLogin [of w "newLogger w" "\<lparr>Token = []\<rparr>"]
  by (intro always_intros always_splits;
      simp add: always_def fst_prepend ret_def fatal_def split: serve_outcome.splits)

lemma afterLogin_reaches_HubMaterial:
  assumes "Getenv (environ w) ''DATABASE_URL'' \<noteq> []"
    and "gorm_Open w ''postgres'' (Getenv (environ w) ''DATABASE_URL'') = None"
    and "Getenv (environ w) ''S3_BUCKET'' \<noteq> []"
    and "useAWS (environ w) \<longrightarrow>
           session_NewSession w = None \<and> Getenv (environ w) ''ZONE_ID'' \<noteq> []
           \<and> SetupRoute53 w (Getenv (environ w) ''ZONE_ID'') = None"
    and "Getenv (environ w) ''HUB_DOMAIN'' \<noteq> []"
    and "useTLSManager (environ w)"
    and "tlsmanage_NewManager w
           \<lparr>L = lg, Domain = Getenv (environ w) ''HUB_DOMAIN'', VaultClient' = vc,
            Staging = (Getenv (environ w) ''LETSENCRYPT_STAGING'' \<noteq> [])\<rparr> = None"
    and "Getenv (environ w) ''REGISTER_TOKEN'' \<noteq> []"
    and "Getenv (environ w) ''OPS_TOKEN'' \<noteq> []"
  shows "Call_NewManager
           \<lparr>L = lg, Domain = Getenv (environ w) ''HUB_DOMAIN'', VaultClient' = vc,
            Staging = (Getenv (environ w) ''LETSENCRYPT_STAGING'' \<noteq> [])\<rparr>
           \<in> set (fst (afterLogin w lg vc))
         \<and> Call_HubMaterial \<in> set (fst (afterLogin w lg vc))"
  using assms
  by (cases "useAWS (environ w)")
     (simp_all add: afterLogin_def openDatabase_def awsSession_def tlsManager_def requiredTokens_def
        initialMaterial_def proc_simps proj_simps in_andThenI)

section \<open>Routing\<close>

lemma HasPrefix_append: "HasPrefix s p \<longleftrightarrow> (\<exists>t. s = p @ t)"
  unfolding HasPrefix_def
  by (metis append_eq_conv_conj append_take_drop_id length_append le_add1)

text \<open>
  C2. The handler chosen for a request is a function of its protocol major version
  and its Content-Type header only: it is the gRPC server exactly when the major
  version is 2 and the header value starts with \<^verbatim>\<open>application/grpc\<close>, the control
  server's HTTP handler in every other case, and two requests that agree on both
  inputs get the same handler.
\<close>

theorem Handler_routing:
  "(HandlerFunc r = GrpcServer \<longleftrightarrow>
      ProtoMajor r = 2 \<and> (\<exists>rest. Header_Get (Header r) ''Content-Type'' = ''application/grpc'' @ rest))
   \<and> (HandlerFunc r \<noteq> GrpcServer \<longleftrightarrow> HandlerFunc r = ControlServer)
   \<and> (\<forall>r'. ProtoMajor r' = ProtoMajor r
           \<and> Header_Get (Header r') ''Content-Type'' = Header_Get (Header r) ''Content-Type''
         \<longrightarrow> HandlerFunc r' = HandlerFunc r)"
  unfolding HandlerFunc_def HasPrefix_append by auto

text \<open>
  An HTTP/2 request with Content-Type \<^verbatim>\<open>application/grpc+proto\<close> goes to the gRPC
  server, also when it carries further headers; the same header over HTTP/1 does
  not.
\<close>

theorem Handler_routing_witness:
  "HandlerFunc \<lparr>ProtoMajor = 2, Header = [''Content-Type'' \<mapsto> [''application/grpc+proto'']]\<rparr>
     = GrpcServer
   \<and> HandlerFunc \<lparr>ProtoMajor = 2,
        Header = [''Content-Type'' \<mapsto> [''application/grpc+proto''], ''Te'' \<mapsto> [''trailers'']]\<rparr>
     = GrpcServer
   \<and> HandlerFunc \<lparr>ProtoMajor = 1, Header = [''Content-Type'' \<mapsto> [''application/grpc+proto'']]\<rparr>
     \<noteq> GrpcServer"
proof -
  let ?r = "\<lparr>ProtoMajor = 2, Header = [''Content-Type'' \<mapsto> [''application/grpc+proto'']]\<rparr>"
  let ?r' = "\<lparr>ProtoMajor = 2,
        Header = [''Content-Type'' \<mapsto> [''application/grpc+proto''], ''Te'' \<mapsto> [''trailers'']]\<rparr>"
  let ?q = "\<lparr>ProtoMajor = 1, Header = [''Content-Type'' \<mapsto> [''application/grpc+proto'']]\<rparr>"
  have ct: "Header_Get (Header ?r) ''Content-Type'' = ''application/grpc'' @ ''+proto''"
    by (simp add: Header_Get_def)
  have ct': "Header_Get (Header ?r') ''Content-Type'' = Header_Get (Header ?r) ''Content-Type''"
    by (simp add: Header_Get_def)
  from Handler_routing [of ?r]
  have iff: "HandlerFunc ?r = GrpcServer \<longleftrightarrow>
      ProtoMajor ?r = 2 \<and> (\<exists>rest. Header_Get (Header ?r) ''Content-Type'' = ''application/grpc'' @ rest)"
    and same: "\<forall>r'. ProtoMajor r' = ProtoMajor ?r
           \<and> Header_Get (Header r') ''Content-Type'' = Header_Get (Header ?r) ''Content-Type''
         \<longrightarrow> HandlerFunc r' = HandlerFunc ?r"
    by blast+
  have a: "HandlerFunc ?r = GrpcServer"
    using iff ct by (metis request.select_convs(1))
  have "ProtoMajor ?r' = ProtoMajor ?r" by simp
  with same ct' have b: "HandlerFunc ?r' = HandlerFunc ?r" by blast
  from Handler_routing [of ?q]
  have "HandlerFunc ?q = GrpcServer \<longrightarrow> ProtoMajor ?q = 2" by blast
  then have c: "HandlerFunc ?q \<noteq> GrpcServer" by auto
  from a b c show ?thesis by simp
qed

section \<open>Feature toggles\<close>

text \<open>
  C10. Both toggles are on for every value of their environment variable other than
  the one-character string \<^verbatim>\<open>0\<close>; a variable that is unset or empty turns the
  feature on.
\<close>

theorem toggles_enabled_unless_zero:
  "(useAWS env \<longleftrightarrow> Getenv env ''USE_AWS'' \<noteq> ''0'')
   \<and> (useTLSManager env \<longleftrightarrow> Getenv env ''USE_TLS_MANAGER'' \<noteq> ''0'')
   \<and> (env ''USE_AWS'' = None \<or> env ''USE_AWS'' = Some [] \<longrightarrow> useAWS env)
   \<and> (env ''USE_TLS_MANAGER'' = None \<or> env ''USE_TLS_MANAGER'' = Some []
        \<longrightarrow> useTLSManager env)
   \<and> (env ''USE_AWS'' = Some ''0'' \<longrightarrow> \<not> useAWS env)
   \<and> (env ''USE_TLS_MANAGER'' = Some ''0'' \<longrightarrow> \<not> useTLSManager env)"
  unfolding useAWS_def useTLSManager_def Getenv_def by auto

text \<open>
  With no variable set both features are on; with \<^verbatim>\<open>USE_AWS=0\<close> and
  \<^verbatim>\<open>USE_TLS_MANAGER=0\<close> both are off; the values \<^verbatim>\<open>false\<close> and \<^verbatim>\<open>00\<close> leave
  them on.
\<close>

theorem toggles_enabled_unless_zero_witness:
  "useAWS Map.empty \<and> useTLSManager Map.empty
   \<and> \<not> useAWS local_env \<and> \<not> useTLSManager local_env
   \<and> useAWS [''USE_AWS'' \<mapsto> ''false''] \<and> useTLSManager [''USE_TLS_MANAGER'' \<mapsto> ''00'']"
  using toggles_enabled_unless_zero [of Map.empty]
        toggles_enabled_unless_zero [of local_env]
        toggles_enabled_unless_zero [of "[''USE_AWS'' \<mapsto> ''false'']"]
        toggles_enabled_unless_zero [of "[''USE_TLS_MANAGER'' \<mapsto> ''00'']"]
  by (simp add: local_env_def Getenv_def)

section \<open>The refresh of the hub certificate\<close>

text \<open>
  C3. One run of the refresh closure: when the fetch from the managed system fails,
  the server is left exactly as it was, and only an error is logged; when it
  succeeds, the hub TLS material of the server is the fetched certificate and key
  with the hub domain, and nothing else of the server changes.
\<close>

theorem refresh_keeps_or_replaces:
  "snd (refresh (Inl e) hubDomain s) = s
   \<and> fst (refresh (Inl e) hubDomain s)
       = [Call_RefreshFromVault, Log Error ''error refreshing hub certs from vault'']
   \<and> hubTLS (snd (refresh (Inr (cert, key)) hubDomain s))
       = Some \<lparr>material_cert = cert, material_key = key, material_domain = hubDomain\<rparr>
   \<and> cfg (snd (refresh (Inr (cert, key)) hubDomain s)) = cfg s
   \<and> fst (refresh (Inr (cert, key)) hubDomain s)
       = [Call_RefreshFromVault, Call_SetHubTLS cert key hubDomain]"
  by (simp add: refresh_def SetHubTLS_def)

section \<open>The login to the secrets backend\<close>

text \<open>
  C6. With no ambient token, a token file that is read, and a login call that
  returns neither an error nor a secret, \<^verbatim>\<open>Run\<close> ends in
  \<^verbatim>\<open>log.Fatal("unable to login to get token")\<close> right after the login call: the
  HTTP server has not been constructed and \<^verbatim>\<open>ListenAndServeTLS\<close> has not been
  called.
\<close>

theorem empty_login_is_fatal:
  assumes "api_NewClient w = Inr []"
    and "files w tokenPath = RegularFile data"
    and "Logical_Write w ''auth/kubernetes/login''
           [''role'' \<mapsto> ''horizon'', ''jwt'' \<mapsto> TrimSpace w data] = Inr None"
  shows "Run w =
           ([Log Info ''log level configured'', Log Trace ''starting server'',
             Call_NewClient, Call_Open tokenPath,
             Log Info ''attempting to login to vault via kubernetes auth'',
             Call_ReadAll tokenPath, Call_Close tokenPath,
             Call_Write ''auth/kubernetes/login''
               [''role'' \<mapsto> ''horizon'', ''jwt'' \<mapsto> TrimSpace w data]],
            Inl (Fatal ''unable to login to get token''))
         \<and> (\<forall>a. New_http_Server a \<notin> set (fst (Run w)))
         \<and> Call_ListenAndServeTLS \<notin> set (fst (Run w))"
  using assms
  by (simp add: Run_def startup_def login_def os_Open_def ioutil_ReadAll_def proc_simps)

theorem empty_login_is_fatal_witness:
  "api_NewClient (local_world\<lparr>files := (\<lambda>_. RegularFile ''jwt'')\<rparr>) = Inr []
   \<and> snd (Run (local_world\<lparr>files := (\<lambda>_. RegularFile ''jwt'')\<rparr>))
       = Inl (Fatal ''unable to login to get token'')
   \<and> Call_ListenAndServeTLS \<notin> set (fst (Run (local_world\<lparr>files := (\<lambda>_. RegularFile ''jwt'')\<rparr>)))"
  using empty_login_is_fatal [of "local_world\<lparr>files := (\<lambda>_. RegularFile ''jwt'')\<rparr>" "''jwt''"]
  by (simp add: local_world_def)

text \<open>
  C5. With no ambient token and no token file, the login phase consists of creating
  the client and one failed \<^verbatim>\<open>os.Open\<close>: it ends without \<^verbatim>\<open>log.Fatal\<close>, the
  client keeps its (empty) token, and start-up continues with the rest of \<^verbatim>\<open>Run\<close>.
  No login request, no \<^verbatim>\<open>SetToken\<close> and no renewal goroutine occur anywhere in the
  run. When the configuration that follows is valid and the TLS manager is on, the
  manager is created with that client and \<^verbatim>\<open>HubMaterial\<close> is called.
\<close>

theorem login_skipped_without_token_file:
  assumes "api_NewClient w = Inr []" and "files w tokenPath = NoSuchFile"
  shows "login w = ([Call_NewClient, Call_Open tokenPath], Inr \<lparr>Token = []\<rparr>)
       \<and> startup w =
           prepend [Log Info ''log level configured'', Log Trace ''starting server'',
                    Call_NewClient, Call_Open tokenPath]
             (afterLogin w (newLogger w) \<lparr>Token = []\<rparr>)
       \<and> (\<forall>p r. Call_Write p r \<notin> set (fst (Run w)))
       \<and> (\<forall>t. Call_SetToken t \<notin> set (fst (Run w)))
       \<and> Go RenewLoop \<notin> set (fst (Run w))
       \<and> (Getenv (environ w) ''DATABASE_URL'' \<noteq> []
            \<and> gorm_Open w ''postgres'' (Getenv (environ w) ''DATABASE_URL'') = None
            \<and> Getenv (environ w) ''S3_BUCKET'' \<noteq> []
            \<and> (useAWS (environ w) \<longrightarrow>
                  session_NewSession w = None \<and> Getenv (environ w) ''ZONE_ID'' \<noteq> []
                  \<and> SetupRoute53 w (Getenv (environ w) ''ZONE_ID'') = None)
            \<and> Getenv (environ w) ''HUB_DOMAIN'' \<noteq> []
            \<and> useTLSManager (environ w)
            \<and> tlsmanage_NewManager w
                 \<lparr>L = newLogger w, Domain = Getenv (environ w) ''HUB_DOMAIN'',
                  VaultClient' = \<lparr>Token = []\<rparr>,
                  Staging = (Getenv (environ w) ''LETSENCRYPT_STAGING'' \<noteq> [])\<rparr> = None
            \<and> Getenv (environ w) ''REGISTER_TOKEN'' \<noteq> []
            \<and> Getenv (environ w) ''OPS_TOKEN'' \<noteq> []
          \<longrightarrow> Call_NewManager
                 \<lparr>L = newLogger w, Domain = Getenv (environ w) ''HUB_DOMAIN'',
                  VaultClient' = \<lparr>Token = []\<rparr>,
                  Staging = (Getenv (environ w) ''LETSENCRYPT_STAGING'' \<noteq> [])\<rparr>
                 \<in> set (fst (Run w))
              \<and> Call_HubMaterial \<in> set (fst (Run w)))"
proof -
  have l: "login w = ([Call_NewClient, Call_Open tokenPath], Inr \<lparr>Token = []\<rparr>)"
    using assms by (rule login_skipped)
  have s: "startup w =
           prepend [Log Info ''log level configured'', Log Trace ''starting server'',
                    Call_NewClient, Call_Open tokenPath]
             (afterLogin w (newLogger w) \<lparr>Token = []\<rparr>)"
    using l by (rule startup_after_skipped_login)
  have n: "\<And>e. e \<in> set (fst (Run w)) \<Longrightarrow> no_login e"
    using no_login_Run_skipped [OF l] unfolding always_def list_all_iff by blast
  have n1: "\<forall>p r. Call_Write p r \<notin> set (fst (Run w))"
    using n by fastforce
  have n2: "\<forall>t. Call_SetToken t \<notin> set (fst (Run w))"
    using n by fastforce
  have n3: "Go RenewLoop \<notin> set (fst (Run w))"
    using n by fastforce
  have sub: "set (fst (afterLogin w (newLogger w) \<lparr>Token = []\<rparr>)) \<subseteq> set (fst (Run w))"
    using set_fst_andThen [of "startup w"] unfolding Run_def s fst_prepend by auto
  have h: "Getenv (environ w) ''DATABASE_URL'' \<noteq> []
            \<and> gorm_Open w ''postgres'' (Getenv (environ w) ''DATABASE_URL'') = None
            \<and> Getenv (environ w) ''S3_BUCKET'' \<noteq> []
            \<and> (useAWS (environ w) \<longrightarrow>
                  session_NewSession w = None \<and> Getenv (environ w) ''ZONE_ID'' \<noteq> []
                  \<and> SetupRoute53 w (Getenv (environ w) ''ZONE_ID'') = None)
            \<and> Getenv (environ w) ''HUB_DOMAIN'' \<noteq> []
            \<and> useTLSManager (environ w)
            \<and> tlsmanage_NewManager w
                 \<lparr>L = newLogger w, Domain = Getenv (environ w) ''HUB_DOMAIN'',
                  VaultClient' = \<lparr>Token = []\<rparr>,
                  Staging = (Getenv (environ w) ''LETSENCRYPT_STAGING'' \<noteq> [])\<rparr> = None
            \<and> Getenv (environ w) ''REGISTER_TOKEN'' \<noteq> []
            \<and> Getenv (environ w) ''OPS_TOKEN'' \<noteq> []
          \<longrightarrow> Call_NewManager
                 \<lparr>L = newLogger w, Domain = Getenv (environ w) ''HUB_DOMAIN'',
                  VaultClient' = \<lparr>Token = []\<rparr>,
                  Staging = (Getenv (environ w) ''LETSENCRYPT_STAGING'' \<noteq> [])\<rparr>
                 \<in> set (fst (Run w))
              \<and> Call_HubMaterial \<in> set (fst (Run w))"
    using afterLogin_reaches_HubMaterial [of w "newLogger w" "\<lparr>Token = []\<rparr>"] sub
    by blast
  show ?thesis
    by (intro conjI) (rule l s n1 n2 n3 h)+
qed

text \<open>
  The concrete world with the TLS manager switched on: the login is skipped and
  \<^verbatim>\<open>HubMaterial\<close> is reached.
\<close>

theorem login_skipped_without_token_file_witness:
  "api_NewClient (local_world\<lparr>environ := local_env(''USE_TLS_MANAGER'' \<mapsto> ''1'')\<rparr>) = Inr []
   \<and> files (local_world\<lparr>environ := local_env(''USE_TLS_MANAGER'' \<mapsto> ''1'')\<rparr>) tokenPath
       = NoSuchFile
   \<and> snd (login (local_world\<lparr>environ := local_env(''USE_TLS_MANAGER'' \<mapsto> ''1'')\<rparr>))
       = Inr \<lparr>Token = []\<rparr>
   \<and> Go RenewLoop
       \<notin> set (fst (Run (local_world\<lparr>environ := local_env(''USE_TLS_MANAGER'' \<mapsto> ''1'')\<rparr>)))
   \<and> Call_HubMaterial
       \<in> set (fst (Run (local_world\<lparr>environ := local_env(''USE_TLS_MANAGER'' \<mapsto> ''1'')\<rparr>)))"
proof -
  let ?w = "local_world\<lparr>environ := local_env(''USE_TLS_MANAGER'' \<mapsto> ''1'')\<rparr>"
  have a: "api_NewClient ?w = Inr []" and b: "files ?w tokenPath = NoSuchFile"
    by (simp_all add: local_world_def)
  have c: "Getenv (environ ?w) ''DATABASE_URL'' \<noteq> []
            \<and> gorm_Open ?w ''postgres'' (Getenv (environ ?w) ''DATABASE_URL'') = None
            \<and> Getenv (environ ?w) ''S3_BUCKET'' \<noteq> []
            \<and> (useAWS (environ ?w) \<longrightarrow>
                  session_NewSession ?w = None \<and> Getenv (environ ?w) ''ZONE_ID'' \<noteq> []
                  \<and> SetupRoute53 ?w (Getenv (environ ?w) ''ZONE_ID'') = None)
            \<and> Getenv (environ ?w) ''HUB_DOMAIN'' \<noteq> []
            \<and> useTLSManager (environ ?w)
            \<and> tlsmanage_NewManager ?w
                 \<lparr>L = newLogger ?w, Domain = Getenv (environ ?w) ''HUB_DOMAIN'',
                  VaultClient' = \<lparr>Token = []\<rparr>,
                  Staging = (Getenv (environ ?w) ''LETSENCRYPT_STAGING'' \<noteq> [])\<rparr> = None
            \<and> Getenv (environ ?w) ''REGISTER_TOKEN'' \<noteq> []
            \<and> Getenv (environ ?w) ''OPS_TOKEN'' \<noteq> []"
    by (simp add: local_world_def local_env_def Getenv_def useAWS_def useTLSManager_def)
  from login_skipped_without_token_file [OF a b] c
  have "snd (login ?w) = Inr \<lparr>Token = []\<rparr>"
    and "Go RenewLoop \<notin> set (fst (Run ?w))"
    and "Call_HubMaterial \<in> set (fst (Run ?w))"
    by (simp, blast, blast)
  with a b show ?thesis by blast
qed

text \<open>
  C4, as stated, fails. A token file that exists but may not be opened
  (\<^verbatim>\<open>os.Open\<close> fails with a permission error) is treated like a missing one: the
  login is skipped and start-up reaches the accept loop. And when an ambient token
  is set, the file is never opened, so a file whose read would fail is harmless.
\<close>

theorem unreadable_token_file_counterexample:
  "file_exists (files locked_token_world) tokenPath
   \<and> \<not> file_readable (files locked_token_world) tokenPath
   \<and> api_NewClient locked_token_world = Inr []
   \<and> snd (login locked_token_world) = Inr \<lparr>Token = []\<rparr>
   \<and> snd (Run locked_token_world) = Inr None
   \<and> file_exists (files ambient_token_world) tokenPath
   \<and> \<not> file_readable (files ambient_token_world) tokenPath
   \<and> snd (Run ambient_token_world) = Inr None"
  by (simp add: run_defs proc_simps locked_token_world_def ambient_token_world_def
        local_world_def local_env_def file_exists_def file_readable_def)

text \<open>
  C4, amended. With no ambient token, a token file that opens but whose read fails
  ends \<^verbatim>\<open>Run\<close> in \<^verbatim>\<open>log.Fatal\<close> with the read error, before any login call; a
  token file that cannot be opened for lack of permission is skipped like an absent
  one. With an ambient token the file is not opened at all.
\<close>

theorem token_file_read_error_is_fatal:
  "(api_NewClient w = Inr [] \<and> files w tokenPath = ReadFails e \<longrightarrow>
      Run w =
        ([Log Info ''log level configured'', Log Trace ''starting server'',
          Call_NewClient, Call_Open tokenPath,
          Log Info ''attempting to login to vault via kubernetes auth'',
          Call_ReadAll tokenPath],
         Inl (Fatal e)))
   \<and> (api_NewClient w = Inr [] \<and> files w tokenPath = PermissionDenied \<longrightarrow>
        login w = ([Call_NewClient, Call_Open tokenPath], Inr \<lparr>Token = []\<rparr>))
   \<and> (api_NewClient w = Inr token \<and> token \<noteq> [] \<longrightarrow>
        login w = ([Call_NewClient], Inr \<lparr>Token = token\<rparr>))"
  by (simp add: Run_def startup_def login_def os_Open_def ioutil_ReadAll_def proc_simps)

text \<open>
  The concrete world with the token path a directory (it opens, the read fails),
  with a token file the process may not open, and with an ambient token.
\<close>

theorem token_file_read_error_is_fatal_witness:
  "api_NewClient (local_world\<lparr>files := (\<lambda>_. ReadFails ''is a directory'')\<rparr>) = Inr []
   \<and> files (local_world\<lparr>files := (\<lambda>_. ReadFails ''is a directory'')\<rparr>) tokenPath
       = ReadFails ''is a directory''
   \<and> snd (Run (local_world\<lparr>files := (\<lambda>_. ReadFails ''is a directory'')\<rparr>))
       = Inl (Fatal ''is a directory'')
   \<and> files (local_world\<lparr>files := (\<lambda>_. PermissionDenied)\<rparr>) tokenPath = PermissionDenied
   \<and> snd (login (local_world\<lparr>files := (\<lambda>_. PermissionDenied)\<rparr>)) = Inr \<lparr>Token = []\<rparr>
   \<and> login (local_world\<lparr>api_NewClient := Inr ''s.ambient''\<rparr>)
       = ([Call_NewClient], Inr \<lparr>Token = ''s.ambient''\<rparr>)"
  using token_file_read_error_is_fatal
          [of "local_world\<lparr>files := (\<lambda>_. ReadFails ''is a directory'')\<rparr>"
              "''is a directory''" "[]"]
        token_file_read_error_is_fatal
          [of "local_world\<lparr>files := (\<lambda>_. PermissionDenied)\<rparr>" "[]" "[]"]
        token_file_read_error_is_fatal
          [of "local_world\<lparr>api_NewClient := Inr ''s.ambient''\<rparr>" "[]" "''s.ambient''"]
  by (simp add: local_world_def)

section \<open>The renewal goroutine\<close>

lemma renewBody_ctx: "renewBody (t\<lparr>ctx_Done := b\<rparr>) = renewBody t"
  by (simp add: renewBody_def)

lemma renewLoop_eq: "renewLoop ts = (concat (map renewBody ts), Blocked_on_ticker)"
  by (induction ts) simp_all

lemma renewBody_calls: "length (filter (\<lambda>e. e = Call_RenewSelf 86400) (renewBody t)) = 1"
  by (simp add: renewBody_def split: option.splits)

lemma renewLoop_calls:
  "length (filter (\<lambda>e. e = Call_RenewSelf 86400) (concat (map renewBody ts))) = length ts"
  by (induction ts) (simp_all add: renewBody_calls)

lemma Hour_ns: "Hour = 3600 * 1000000000"
  by (simp add: Hour_def Minute_def Second_def Millisecond_def Microsecond_def Nanosecond_def)

text \<open>
  C7. A login that obtains a token ends by starting the renewal goroutine. The
  goroutine creates a ticker of one hour (3600 s in nanoseconds) and, for every
  firing it is given, calls \<^verbatim>\<open>RenewSelf(86400)\<close> once; an error adds a log line and
  nothing else. After any number of firings, failed or not, the goroutine is
  blocked on the ticker again, and it behaves the same whether or not the context
  of \<^verbatim>\<open>Run\<close> has been cancelled.
\<close>

theorem renewal_loop:
  "(api_NewClient w = Inr [] \<and> files w tokenPath = RegularFile data
      \<and> Logical_Write w ''auth/kubernetes/login''
            [''role'' \<mapsto> ''horizon'', ''jwt'' \<mapsto> TrimSpace w data] = Inr (Some sec)
      \<and> Auth sec = Some auth
    \<longrightarrow> login w =
          ([Call_NewClient, Call_Open tokenPath,
            Log Info ''attempting to login to vault via kubernetes auth'',
            Call_ReadAll tokenPath, Call_Close tokenPath,
            Call_Write ''auth/kubernetes/login''
              [''role'' \<mapsto> ''horizon'', ''jwt'' \<mapsto> TrimSpace w data],
            Call_SetToken (ClientToken auth), Log Info ''retrieved token from vault'',
            Go RenewLoop],
           Inr \<lparr>Token = ClientToken auth\<rparr>))
   \<and> renewGoroutine ts
        = (Call_NewTicker (3600 * 1000000000) # concat (map renewBody ts), Blocked_on_ticker)
   \<and> renewBody t =
        (case RenewSelf t 86400 of
           None \<Rightarrow> [Call_RenewSelf 86400]
         | Some e \<Rightarrow> [Call_RenewSelf 86400, Printf (''unable to renew Vault token: '' @ e)])
   \<and> length (filter (\<lambda>e. e = Call_RenewSelf 86400) (fst (renewGoroutine ts))) = length ts
   \<and> renewGoroutine (map (\<lambda>t. t\<lparr>ctx_Done := True\<rparr>) ts) = renewGoroutine ts"
proof -
  have a: "renewGoroutine ts
        = (Call_NewTicker (3600 * 1000000000) # concat (map renewBody ts), Blocked_on_ticker)" for ts
    by (simp add: renewGoroutine_def renewLoop_eq Hour_ns)
  have b: "map renewBody (map (\<lambda>t. t\<lparr>ctx_Done := True\<rparr>) ts) = map renewBody ts"
    by (simp add: renewBody_ctx)
  have c: "renewBody t =
        (case RenewSelf t 86400 of
           None \<Rightarrow> [Call_RenewSelf 86400]
         | Some e \<Rightarrow> [Call_RenewSelf 86400, Printf (''unable to renew Vault token: '' @ e)])"
    by (simp add: renewBody_def split: option.splits)
  have d: "api_NewClient w = Inr [] \<and> files w tokenPath = RegularFile data
      \<and> Logical_Write w ''auth/kubernetes/login''
            [''role'' \<mapsto> ''horizon'', ''jwt'' \<mapsto> TrimSpace w data] = Inr (Some sec)
      \<and> Auth sec = Some auth
    \<longrightarrow> login w =
          ([Call_NewClient, Call_Open tokenPath,
            Log Info ''attempting to login to vault via kubernetes auth'',
            Call_ReadAll tokenPath, Call_Close tokenPath,
            Call_Write ''auth/kubernetes/login''
              [''role'' \<mapsto> ''horizon'', ''jwt'' \<mapsto> TrimSpace w data],
            Call_SetToken (ClientToken auth), Log Info ''retrieved token from vault'',
            Go RenewLoop],
           Inr \<lparr>Token = ClientToken auth\<rparr>)"
    by (simp add: login_def os_Open_def ioutil_ReadAll_def proc_simps)
  have e: "length (filter (\<lambda>e. e = Call_RenewSelf 86400) (fst (renewGoroutine ts))) = length ts"
    by (simp add: a renewLoop_calls)
  have f: "renewGoroutine (map (\<lambda>t. t\<lparr>ctx_Done := True\<rparr>) ts) = renewGoroutine ts"
    by (simp only: a b)
  show ?thesis
    by (intro conjI) (rule d a c e f)+
qed

text \<open>
  A login that succeeds, and two firings of the ticker: the first after the context
  was cancelled and with a failing renewal, the second with a successful one.
\<close>

theorem renewal_loop_witness:
  "snd (login (local_world
          \<lparr>files := (\<lambda>_. RegularFile ''jwt''),
           Logical_Write := (\<lambda>_ _. Inr (Some \<lparr>Auth = Some \<lparr>ClientToken = ''s.token'',
                                                            Accessor = ''acc''\<rparr>\<rparr>))\<rparr>))
     = Inr \<lparr>Token = ''s.token''\<rparr>
   \<and> Go RenewLoop \<in> set (fst (login (local_world
          \<lparr>files := (\<lambda>_. RegularFile ''jwt''),
           Logical_Write := (\<lambda>_ _. Inr (Some \<lparr>Auth = Some \<lparr>ClientToken = ''s.token'',
                                                            Accessor = ''acc''\<rparr>\<rparr>))\<rparr>)))
   \<and> renewGoroutine
        [\<lparr>ctx_Done = True, RenewSelf = (\<lambda>_. Some ''permission denied'')\<rparr>,
         \<lparr>ctx_Done = False, RenewSelf = (\<lambda>_. None)\<rparr>]
       = ([Call_NewTicker 3600000000000, Call_RenewSelf 86400,
           Printf ''unable to renew Vault token: permission denied'', Call_RenewSelf 86400],
          Blocked_on_ticker)"
proof -
  let ?sec = "\<lparr>Auth = Some \<lparr>ClientToken = ''s.token'', Accessor = ''acc''\<rparr>\<rparr>"
  let ?w = "local_world\<lparr>files := (\<lambda>_. RegularFile ''jwt''),
                        Logical_Write := (\<lambda>_ _. Inr (Some ?sec))\<rparr>"
  let ?ts = "[\<lparr>ctx_Done = True, RenewSelf = (\<lambda>_. Some ''permission denied'')\<rparr>,
              \<lparr>ctx_Done = False, RenewSelf = (\<lambda>_. None)\<rparr>]"
  have h: "api_NewClient ?w = Inr [] \<and> files ?w tokenPath = RegularFile ''jwt''
      \<and> Logical_Write ?w ''auth/kubernetes/login''
            [''role'' \<mapsto> ''horizon'', ''jwt'' \<mapsto> TrimSpace ?w ''jwt''] = Inr (Some ?sec)
      \<and> Auth ?sec = Some \<lparr>ClientToken = ''s.token'', Accessor = ''acc''\<rparr>"
    by (simp add: local_world_def)
  from renewal_loop [of ?w "''jwt''" ?sec "\<lparr>ClientToken = ''s.token'', Accessor = ''acc''\<rparr>" ?ts]
  have l: "login ?w =
          ([Call_NewClient, Call_Open tokenPath,
            Log Info ''attempting to login to vault via kubernetes auth'',
            Call_ReadAll tokenPath, Call_Close tokenPath,
            Call_Write ''auth/kubernetes/login''
              [''role'' \<mapsto> ''horizon'', ''jwt'' \<mapsto> TrimSpace ?w ''jwt''],
            Call_SetToken ''s.token'', Log Info ''retrieved token from vault'',
            Go RenewLoop],
           Inr \<lparr>Token = ''s.token''\<rparr>)"
    and g: "renewGoroutine ?ts
        = (Call_NewTicker (3600 * 1000000000) # concat (map renewBody ?ts), Blocked_on_ticker)"
    using h by simp_all
  have "concat (map renewBody ?ts)
          = [Call_RenewSelf 86400, Printf ''unable to renew Vault token: permission denied'',
             Call_RenewSelf 86400]"
    by (simp add: renewBody_def)
  with l g show ?thesis by simp
qed

section \<open>The self-signed certificate\<close>

text \<open>
  The validity window of the template is five years less the time that passes
  between the two readings of the clock.
\<close>

lemma template_window:
  "NotAfter (template w cn n) - NotBefore (template w cn n)
     = 5 * 365 * 24 * Hour - (time_Now w 1 - time_Now w 0)"
  by (simp add: template_def Let_def)

text \<open>
  C8 at a clock that reads 1.999999990 s and then 2.000000010 s: the generator
  succeeds with a 4096-bit RSA key and a template restricted to digital
  signatures, but \<^verbatim>\<open>NotAfter\<close> is 20 ns short of five years after \<^verbatim>\<open>NotBefore\<close>,
  and one second short once both are truncated to seconds as in the encoded
  certificate.
\<close>

theorem snakeOilCert_window_short_of_five_years:
  "snakeOilCert local_world ''127.0.0.1:24402'' =
     ([Call_GenerateKey 4096, Call_rand_Int (2 ^ 128), Call_Now, Call_Now,
       Call_CreateCertificate (template local_world ''127.0.0.1:24402'' 12345)],
      Inr (''snakeoil-der'', RSAPrivateKey 4096 7))
   \<and> time_Now local_world 0 = 1999999990 \<and> time_Now local_world 1 = 2000000010
   \<and> NotBefore (template local_world ''127.0.0.1:24402'' 12345) = 2000000010
   \<and> NotAfter (template local_world ''127.0.0.1:24402'' 12345) = 157680001999999990
   \<and> NotAfter (template local_world ''127.0.0.1:24402'' 12345)
       - NotBefore (template local_world ''127.0.0.1:24402'' 12345)
       = 5 * 365 * 24 * Hour - 20
   \<and> NotAfter (template local_world ''127.0.0.1:24402'' 12345)
       - NotBefore (template local_world ''127.0.0.1:24402'' 12345)
       \<noteq> 5 * 365 * 24 * Hour
   \<and> NotAfter (template local_world ''127.0.0.1:24402'' 12345) div Second
       - NotBefore (template local_world ''127.0.0.1:24402'' 12345) div Second
       = 5 * 365 * 24 * 3600 - 1"
  by (simp add: snakeOilCert_def template_def proc_simps local_world_def
       Hour_def Minute_def Second_def Millisecond_def Microsecond_def Nanosecond_def)

section \<open>Start-up without the certificate manager\<close>

text \<open>
  With the TLS manager switched off \<^verbatim>\<open>tlsmgr\<close> stays nil, and line 307 calls
  \<^verbatim>\<open>RegisterRenewHandler\<close> on it all the same. The method belongs to the package
  \<^verbatim>\<open>tlsmanage\<close>, outside this file, so whether start-up survives the call is
  not decided here: the two lemmas below give the outcome for either answer, every
  other step of start-up succeeding. If the method dereferences its receiver,
  start-up ends in a panic after the HTTP server has been constructed.
\<close>

lemma fallback_panics_on_nil_manager:
  assumes "\<not> useTLSManager (environ w)"
    and "snd (login w) = Inr vaultClient"
    and "Getenv (environ w) ''DATABASE_URL'' \<noteq> []"
    and "gorm_Open w ''postgres'' (Getenv (environ w) ''DATABASE_URL'') = None"
    and "Getenv (environ w) ''S3_BUCKET'' \<noteq> []"
    and "useAWS (environ w) \<longrightarrow> session_NewSession w = None"
    and "Getenv (environ w) ''HUB_DOMAIN'' \<noteq> []"
    and "Getenv (environ w) ''REGISTER_TOKEN'' \<noteq> []"
    and "Getenv (environ w) ''OPS_TOKEN'' \<noteq> []"
    and "control_NewConsulLockManager w = None"
    and "\<And>sc. control_NewServer w sc = None"
    and "rsa_GenerateKey w 4096 = Inr k"
    and "rand_Int w (2 ^ 128) = Inr n"
    and "x509_CreateCertificate w (template w ''127.0.0.1:24402'' n) (RSAPrivateKey 4096 k)
           = Inr cert"
    and "\<not> RegisterRenewHandler w None"
  shows "snd (Run w) = Inl (Panic ''runtime error: invalid memory address or nil pointer dereference'')"
proof -
  obtain tr0 where l: "login w = (tr0, Inr vaultClient)"
    using assms(2) by (cases "login w") simp
  show ?thesis
    using assms(1) assms(3-)
    by (cases "useAWS (environ w)")
       (simp_all add: Run_def startup_def l afterLogin_def openDatabase_def awsSession_def
          tlsManager_def requiredTokens_def initialMaterial_def managedCertificate_def
          listenerConfig_def snakeOilCert_def proc_simps)
qed

text \<open>
  If the method returns on the nil manager, the HTTP server carries exactly the
  generated self-signed certificate, no hub TLS material is installed, and
  \<^verbatim>\<open>Run\<close> goes on to call \<^verbatim>\<open>ListenAndServeTLS\<close>.
\<close>

lemma fallback_serves_when_handler_returns:
  assumes tls_off: "\<not> useTLSManager (environ w)"
    and login_ok: "snd (login w) = Inr vaultClient"
    and db: "Getenv (environ w) ''DATABASE_URL'' \<noteq> []"
      "gorm_Open w ''postgres'' (Getenv (environ w) ''DATABASE_URL'') = None"
    and bucket: "Getenv (environ w) ''S3_BUCKET'' \<noteq> []"
    and aws: "useAWS (environ w) \<longrightarrow> session_NewSession w = None"
    and domain: "Getenv (environ w) ''HUB_DOMAIN'' \<noteq> []"
    and toks: "Getenv (environ w) ''REGISTER_TOKEN'' \<noteq> []"
      "Getenv (environ w) ''OPS_TOKEN'' \<noteq> []"
    and lm: "control_NewConsulLockManager w = None"
    and srv: "\<And>sc. control_NewServer w sc = None"
    and key: "rsa_GenerateKey w 4096 = Inr k"
    and serial: "rand_Int w (2 ^ 128) = Inr n"
    and der: "x509_CreateCertificate w (template w ''127.0.0.1:24402'' n) (RSAPrivateKey 4096 k)
                = Inr cert"
    and reg: "RegisterRenewHandler w None"
  shows "\<exists>tr hs s.
           startup w = (tr, Inr (hs, s))
         \<and> TLSConfig hs
             = \<lparr>Certificates = [\<lparr>Certificate = [cert], PrivateKey = RSAPrivateKey 4096 k\<rparr>]\<rparr>
         \<and> Addr hs = '':'' @ listenPort w
         \<and> hubTLS s = None
         \<and> Call_CreateCertificate (template w ''127.0.0.1:24402'' n) \<in> set tr
         \<and> Call_RegisterRenewHandler None \<in> set tr
         \<and> Run w =
             (tr @ [Call_ListenAndServeTLS],
              case ListenAndServeTLS w of
                ReturnsError e \<Rightarrow> Inl (Fatal e)
              | ReturnsNil \<Rightarrow> Inr (Some 0)
              | ServesForever \<Rightarrow> Inr None)"
proof -
  obtain tr0 where l: "login w = (tr0, Inr vaultClient)"
    using login_ok by (cases "login w") simp
  show ?thesis
    using tls_off db bucket aws domain toks lm srv key serial der reg
    by (cases "useAWS (environ w)"; cases "ListenAndServeTLS w")
       (simp_all add: Run_def startup_def l afterLogin_def openDatabase_def awsSession_def
          tlsManager_def requiredTokens_def initialMaterial_def managedCertificate_def
          listenerConfig_def snakeOilCert_def proc_simps)
qed

text \<open>
  C9. Whatever the world, a certificate template made during \<^verbatim>\<open>Run\<close> has the
  common name \<^verbatim>\<open>127.0.0.1:24402\<close>, while the address of the HTTP server follows
  the variable \<^verbatim>\<open>PORT\<close> (24402 only when it is unset or empty).
\<close>

theorem snakeoil_common_name_fixed:
  "(\<forall>t. Call_CreateCertificate t \<in> set (fst (Run w))
        \<longrightarrow> CommonName (Subject t) = ''127.0.0.1:24402'')
   \<and> (\<forall>hs s. snd (startup w) = Inr (hs, s)
        \<longrightarrow> Addr hs = '':'' @ (if Getenv (environ w) ''PORT'' = [] then ''24402''
                              else Getenv (environ w) ''PORT''))"
proof (intro conjI allI impI)
  fix t assume "Call_CreateCertificate t \<in> set (fst (Run w))"
  with always_Run [of w] have "cn_fixed (Call_CreateCertificate t)"
    unfolding always_def list_all_iff by blast
  then show "CommonName (Subject t) = ''127.0.0.1:24402''" by simp
next
  fix hs s assume ok: "snd (startup w) = Inr (hs, s)"
  have "yields (\<lambda>(hs, s). Addr hs = '':'' @ listenPort w) (startup w)"
    unfolding startup_def Let_def by (intro yields_intros yields_afterLogin)
  with ok have "Addr hs = '':'' @ listenPort w"
    by (simp add: yields_def)
  then show "Addr hs = '':'' @ (if Getenv (environ w) ''PORT'' = [] then ''24402''
                              else Getenv (environ w) ''PORT'')"
    by (simp add: listenPort_def Let_def)
qed

theorem snakeoil_common_name_fixed_witness:
  "Getenv (environ local_world) ''PORT'' = ''8443''
   \<and> Call_CreateCertificate (template local_world ''127.0.0.1:24402'' 12345)
        \<in> set (fst (Run local_world))
   \<and> CommonName (Subject (template local_world ''127.0.0.1:24402'' 12345)) = ''127.0.0.1:24402''
   \<and> map_sum id (\<lambda>(hs, s). Addr hs) (snd (startup local_world)) = Inr '':8443''"
proof -
  have run: "Call_CreateCertificate (template local_world ''127.0.0.1:24402'' 12345)
        \<in> set (fst (Run local_world))"
    by (simp add: run_defs proc_simps local_world_def local_env_def)
  have port: "Getenv (environ local_world) ''PORT'' = ''8443''"
    by (simp add: Getenv_def local_world_def local_env_def)
  obtain hs s where st: "snd (startup local_world) = Inr (hs, s)"
    by (simp add: run_defs proc_simps local_world_def local_env_def)
  from snakeoil_common_name_fixed [of local_world] run st port
  have "CommonName (Subject (template local_world ''127.0.0.1:24402'' 12345)) = ''127.0.0.1:24402''"
    and "Addr hs = '':8443''"
    by auto
  with run st port show ?thesis by simp
qed

end
